theory Spec2Isabelle
  imports Main "HOL-Library.Word"
begin

section \<open>The linkedql registry: data model\<close>

text \<open>
  This theory embeds \<^verbatim>\<open>query/linkedql/registry.go\<close>: the type registry
  (\<^verbatim>\<open>Register\<close>), the item decoder (\<^verbatim>\<open>Unmarshal\<close>) and the value decoder
  (\<^verbatim>\<open>parseValue\<close>). Go strings are byte sequences, so they are \<open>string\<close> here.
\<close>

subsection \<open>quad values\<close>

text \<open>
  The variants of \<^verbatim>\<open>quad.Value\<close> that the decoder constructs:
  \<^verbatim>\<open>quad.String\<close>, \<^verbatim>\<open>quad.TypedString{Value, Type}\<close>,
  \<^verbatim>\<open>quad.LangString{Value, Lang}\<close>, \<^verbatim>\<open>quad.IRI\<close> and \<^verbatim>\<open>quad.BNode\<close>.
\<close>

datatype quad_value =
    quad_String string
  | quad_TypedString string string
  | quad_LangString string string
  | quad_IRI string
  | quad_BNode string

definition xsd :: string where
  "xsd = ''http://www.w3.org/2001/XMLSchema#''"

definition xsdInt :: string where
  "xsdInt = xsd @ ''integer''"

definition xsdFloat :: string where
  "xsdFloat = xsd @ ''float''"

definition xsdBool :: string where
  "xsdBool = xsd @ ''boolean''"

subsection \<open>JSON documents and Go dynamic values\<close>

text \<open>
  A \<^verbatim>\<open>json.RawMessage\<close> (and the \<^verbatim>\<open>data\<close> argument of \<^verbatim>\<open>Unmarshal\<close>) holds the text of
  one JSON document; it is modelled by the document it denotes. A number keeps its literal
  text, a string its decoded content, an object its members in textual order. Bytes that
  are no JSON document make the first \<^verbatim>\<open>json.Unmarshal\<close> of \<^verbatim>\<open>Unmarshal\<close> return a syntax
  error; they have no counterpart here, and the documents inside a well-formed document
  are well-formed.
\<close>

datatype json =
    JNull
  | JBool bool
  | JNumber string
  | JString string
  | JArray "json list"
  | JObject "(string \<times> json) list"

text \<open>
  The dynamic values an \<^verbatim>\<open>interface{}\<close> can hold where \<^verbatim>\<open>parseValue\<close> looks at it.
  \<open>'f\<close> is Go's \<^verbatim>\<open>float64\<close>, which this theory does not interpret. A Go map is an
  association list read with \<open>map_of\<close>.
\<close>

datatype 'f iface =
    INil
  | IString string
  | IInt64 "64 word"
  | IFloat64 'f
  | IBool bool
  | IMap "(string \<times> 'f iface) list"
  | ISlice "'f iface list"
  | IRawMessage json

subsection \<open>Go types as seen through reflect\<close>

text \<open>
  A \<^verbatim>\<open>reflect.Type\<close>. Interfaces, slices and structs carry their type name; the unnamed
  slice type \<^verbatim>\<open>[]T\<close> has the empty name. \<open>TOther\<close> stands for every type whose kind is
  none of interface, slice, pointer and struct. A struct field records what
  \<^verbatim>\<open>reflect.StructField\<close> gives the decoder: \<^verbatim>\<open>Name\<close>, \<^verbatim>\<open>PkgPath\<close> (empty exactly for
  exported fields), the value of the \<^verbatim>\<open>json\<close> key of its tag and its \<^verbatim>\<open>Type\<close>.
\<close>

datatype gtype =
    TInterface string
  | TSlice string gtype
  | TPtr gtype
  | TStruct string "field list"
  | TOther string
and field =
    StructField (Name: string) (PkgPath: string) (Tag_json: string) (Type: gtype)

datatype kind = Interface | Slice | Ptr | Struct | OtherKind

fun Kind :: "gtype \<Rightarrow> kind" where
  "Kind (TInterface n) = Interface"
| "Kind (TSlice n el) = Slice"
| "Kind (TPtr t) = Ptr"
| "Kind (TStruct n fs) = Struct"
| "Kind (TOther n) = OtherKind"

definition quadValue :: gtype where
  "quadValue = TInterface ''quad.Value''"

definition quadSliceValue :: gtype where
  "quadSliceValue = TSlice [] quadValue"

subsection \<open>Errors and panics\<close>

text \<open>
  \<open>JSONError\<close> is an error returned by \<^verbatim>\<open>json.Unmarshal\<close>; \<open>UnsupportedItem typ\<close> is
  \<^verbatim>\<open>fmt.Errorf("unsupported item: %q", typ)\<close>; \<open>CannotParseValue a\<close> is
  \<^verbatim>\<open>fmt.Errorf("cannot parse JSON-LD value: %#v", a)\<close>. A panic is not a returned error
  and is kept apart.
\<close>

datatype json_error = SyntaxError | UnmarshalTypeError

datatype 'f error =
    JSONError json_error
  | UnsupportedItem string
  | CannotParseValue "'f iface"

datatype 'f failure = Err "'f error" | Panic string

section \<open>The value decoder\<close>

text \<open>
  Go's conversion of an integer to a string type yields the UTF-8 encoding of the code
  point with that number, and \<^verbatim>\<open>"\uFFFD"\<close> for a number that is no valid code point.
  \<^verbatim>\<open>quad.String(a)\<close> with \<^verbatim>\<open>a\<close> an \<^verbatim>\<open>int64\<close> is this conversion.
\<close>

definition utf8_EncodeRune :: "nat \<Rightarrow> string" where
  "utf8_EncodeRune r =
     (if r < 0x80 then [char_of r]
      else if r < 0x800 then [char_of (0xC0 + r div 64), char_of (0x80 + r mod 64)]
      else if r < 0x10000 then
        [char_of (0xE0 + r div 4096), char_of (0x80 + (r div 64) mod 64),
         char_of (0x80 + r mod 64)]
      else
        [char_of (0xF0 + r div 262144), char_of (0x80 + (r div 4096) mod 64),
         char_of (0x80 + (r div 64) mod 64), char_of (0x80 + r mod 64)])"

definition RuneError :: nat where
  "RuneError = 0xFFFD"

definition intstring :: "64 word \<Rightarrow> string" where
  "intstring a =
     (let v = sint a in
      if v < 0 then utf8_EncodeRune RuneError
      else if 0x10FFFF < v then utf8_EncodeRune RuneError
      else if 0xD800 \<le> v \<and> v \<le> 0xDFFF then utf8_EncodeRune RuneError
      else utf8_EncodeRune (nat v))"

text \<open>The type assertion \<^verbatim>\<open>a[key].(string)\<close> on a map lookup.\<close>

fun as_string :: "'f iface option \<Rightarrow> string option" where
  "as_string (Some (IString s)) = Some s"
| "as_string _ = None"

text \<open>\<^verbatim>\<open>fmt.Sprintf("%t", a)\<close>.\<close>

definition Sprintf_t :: "bool \<Rightarrow> string" where
  "Sprintf_t b = (if b then ''true'' else ''false'')"

text \<open>
  \<^verbatim>\<open>parseValue\<close>. Its first argument is \<^verbatim>\<open>fmt.Sprintf("%f", _)\<close> on a \<^verbatim>\<open>float64\<close>,
  which is left uninterpreted. The \<^verbatim>\<open>@language\<close> branch returns the literal text
  \<^verbatim>\<open>"value"\<close>, as line 164 of the source does.
\<close>

fun parseValue :: "('f \<Rightarrow> string) \<Rightarrow> 'f iface \<Rightarrow> 'f error + quad_value" where
  "parseValue fmt_f (IString a) = Inr (quad_String a)"
| "parseValue fmt_f (IInt64 a) = Inr (quad_TypedString (intstring a) xsdInt)"
| "parseValue fmt_f (IFloat64 a) = Inr (quad_TypedString (fmt_f a) xsdFloat)"
| "parseValue fmt_f (IBool a) = Inr (quad_TypedString (Sprintf_t a) xsdBool)"
| "parseValue fmt_f (IMap a) =
     (case as_string (map_of a ''@id'') of
        Some ident \<Rightarrow>
          if take 2 ident = ''_:'' then Inr (quad_BNode (drop 2 ident))
          else Inr (quad_IRI ident)
      | None \<Rightarrow>
          (case as_string (map_of a ''@value'') of
             Some val \<Rightarrow>
               (case as_string (map_of a ''@language'') of
                  Some language \<Rightarrow> Inr (quad_LangString ''value'' language)
                | None \<Rightarrow>
                    (case as_string (map_of a ''@type'') of
                       Some ty \<Rightarrow> Inr (quad_TypedString val ty)
                     | None \<Rightarrow> Inl (CannotParseValue (IMap a))))
           | None \<Rightarrow> Inl (CannotParseValue (IMap a))))"
| "parseValue fmt_f a = Inl (CannotParseValue a)"

section \<open>The type registry\<close>

text \<open>
  The package variables \<^verbatim>\<open>typeByName\<close> and \<^verbatim>\<open>nameByType\<close>. An argument of
  \<^verbatim>\<open>Register\<close> is seen through \<^verbatim>\<open>reflect.TypeOf(typ)\<close> and the result of its method
  \<^verbatim>\<open>typ.Type()\<close>. The nil interface, which has neither, is not a \<open>registrant\<close>.
\<close>

record registry =
  typeByName :: "string \<rightharpoonup> gtype"
  nameByType :: "gtype \<rightharpoonup> string"

definition empty_registry :: registry where
  "empty_registry = \<lparr>typeByName = Map.empty, nameByType = Map.empty\<rparr>"

datatype registrant = Registrant (TypeOf: gtype) (Type_iri: string)

text \<open>
  \<^verbatim>\<open>Register\<close> returns nothing and may panic; the model returns the panic message or
  \<open>()\<close>, together with the registry as the call leaves it. \<open>indirect\<close> is lines 20 to
  22: a pointer type is replaced by the type it points to.
\<close>

definition indirect :: "gtype \<Rightarrow> gtype" where
  "indirect tp = (case tp of TPtr el \<Rightarrow> el | _ \<Rightarrow> tp)"

definition Register :: "registrant \<Rightarrow> registry \<Rightarrow> (string + unit) \<times> registry" where
  "Register typ reg =
     (let tp = indirect (TypeOf typ)
      in if Kind tp = Struct then
           (let name = Type_iri typ
            in case typeByName reg name of
                 Some _ \<Rightarrow> (Inl ''this name was already registered'', reg)
               | None \<Rightarrow>
                   (Inr (),
                    reg\<lparr>typeByName := (typeByName reg)(name \<mapsto> tp),
                        nameByType := (nameByType reg)(tp \<mapsto> name)\<rparr>))
         else (Inl ''only structs are allowed'', reg))"

section \<open>The item decoder\<close>

subsection \<open>What the decoder takes from the Go library\<close>

text \<open>
  The parts of the standard library whose results the decoder only passes on:
  \<^item> \<open>ParseFloat\<close>: the \<^verbatim>\<open>float64\<close> that \<^verbatim>\<open>encoding/json\<close> stores in an
    \<^verbatim>\<open>interface{}\<close> for a number literal, \<open>None\<close> when the literal is out of range;
  \<^item> \<open>Sprintf_f\<close>: \<^verbatim>\<open>fmt.Sprintf("%f", a)\<close>;
  \<^item> \<open>json_Unmarshal t v\<close>: \<^verbatim>\<open>json.Unmarshal(v, p)\<close> with \<^verbatim>\<open>p\<close> pointing to a zero
    value of type \<open>t\<close>;
  \<^item> \<open>Zero t\<close>: the zero value of type \<open>t\<close>;
  \<^item> \<open>AssignableTo t u\<close>: whether reflect lets a value of type \<open>t\<close> be set into a
    variable of type \<open>u\<close>.
\<close>

record ('f, 'v) golib =
  ParseFloat :: "string \<Rightarrow> 'f option"
  Sprintf_f :: "'f \<Rightarrow> string"
  json_Unmarshal :: "gtype \<Rightarrow> json \<Rightarrow> json_error + 'v"
  Zero :: "gtype \<Rightarrow> 'v"
  AssignableTo :: "gtype \<Rightarrow> gtype \<Rightarrow> bool"

subsection \<open>json.Unmarshal at the four targets the decoder names\<close>

text \<open>
  \<^verbatim>\<open>json.Unmarshal(v, &a)\<close> with \<^verbatim>\<open>a interface{}\<close>: every number becomes a
  \<^verbatim>\<open>float64\<close>, an object a map in which the last of several equal keys wins. The only
  failure on a well-formed document is a number out of range (\<open>None\<close>).
\<close>

fun to_iface :: "(string \<Rightarrow> 'f option) \<Rightarrow> json \<Rightarrow> 'f iface option" where
  "to_iface pf JNull = Some INil"
| "to_iface pf (JBool b) = Some (IBool b)"
| "to_iface pf (JNumber n) = map_option IFloat64 (pf n)"
| "to_iface pf (JString s) = Some (IString s)"
| "to_iface pf (JArray xs) = map_option ISlice (those (map (to_iface pf) xs))"
| "to_iface pf (JObject kvs) =
     map_option IMap
       (those (map (\<lambda>kv. map_option (Pair (fst kv)) (to_iface pf (snd kv))) (rev kvs)))"

text \<open>\<^verbatim>\<open>json.Unmarshal(data, &m)\<close> with \<^verbatim>\<open>m map[string]json.RawMessage\<close>.\<close>

fun unmarshal_RawMessage_map :: "json \<Rightarrow> json_error + (string \<times> json) list" where
  "unmarshal_RawMessage_map (JObject kvs) = Inr (rev kvs)"
| "unmarshal_RawMessage_map JNull = Inr []"
| "unmarshal_RawMessage_map _ = Inl UnmarshalTypeError"

text \<open>
  \<^verbatim>\<open>json.Unmarshal(m["@type"], &typ)\<close> with \<^verbatim>\<open>typ string\<close>. A missing key gives an
  empty \<^verbatim>\<open>RawMessage\<close>, which is no JSON document; \<^verbatim>\<open>null\<close> leaves \<^verbatim>\<open>typ\<close> empty.
\<close>

fun unmarshal_string :: "json option \<Rightarrow> json_error + string" where
  "unmarshal_string None = Inl SyntaxError"
| "unmarshal_string (Some (JString s)) = Inr s"
| "unmarshal_string (Some JNull) = Inr []"
| "unmarshal_string (Some _) = Inl UnmarshalTypeError"

text \<open>
  \<^verbatim>\<open>json.Unmarshal(v, &a)\<close> with \<^verbatim>\<open>a []interface{}\<close>, and \<^verbatim>\<open>json.Unmarshal(v, &arr)\<close>
  with \<^verbatim>\<open>arr []json.RawMessage\<close>. A Go slice is a list option: \<open>None\<close> is the nil
  slice, which \<^verbatim>\<open>null\<close> leaves in place; \<^verbatim>\<open>[]\<close> gives an empty slice that is not nil.
\<close>

fun unmarshal_iface_slice ::
  "(string \<Rightarrow> 'f option) \<Rightarrow> json \<Rightarrow> json_error + 'f iface list option" where
  "unmarshal_iface_slice pf (JArray xs) =
     (case those (map (to_iface pf) xs) of
        None \<Rightarrow> Inl UnmarshalTypeError
      | Some a \<Rightarrow> Inr (Some a))"
| "unmarshal_iface_slice pf JNull = Inr None"
| "unmarshal_iface_slice pf _ = Inl UnmarshalTypeError"

fun unmarshal_RawMessage_slice :: "json \<Rightarrow> json_error + json list option" where
  "unmarshal_RawMessage_slice (JArray xs) = Inr (Some xs)"
| "unmarshal_RawMessage_slice JNull = Inr None"
| "unmarshal_RawMessage_slice _ = Inl UnmarshalTypeError"

text \<open>\<^verbatim>\<open>range\<close> over a slice, and \<^verbatim>\<open>append\<close> of one element.\<close>

fun elements :: "'a list option \<Rightarrow> 'a list" where
  "elements None = []"
| "elements (Some xs) = xs"

fun append1 :: "'a list option \<Rightarrow> 'a \<Rightarrow> 'a list option" where
  "append1 None x = Some [x]"
| "append1 (Some xs) x = Some (xs @ [x])"

subsection \<open>Decoded items\<close>

text \<open>
  The value of a struct field, by the way the decoder fills it: a \<^verbatim>\<open>quad.Value\<close>
  (\<open>None\<close> is the nil interface), a \<^verbatim>\<open>[]quad.Value\<close>, a registry item held in an
  interface, a slice of them, or whatever the standard decoder produced. An item is the
  struct that \<^verbatim>\<open>Unmarshal\<close> returns a pointer to: its struct type and its field values
  in declaration order.
\<close>

datatype 'v gvalue =
    VValue "quad_value option"
  | VValues "quad_value list option"
  | VItem "'v item option"
  | VItems "'v item list option"
  | VNative 'v
and 'v item =
    Item (item_type: gtype) (item_fields: "'v gvalue list")

text \<open>The fields of \<^verbatim>\<open>reflect.New(tp).Elem()\<close>.\<close>

definition zero_value :: "(gtype \<Rightarrow> 'v) \<Rightarrow> gtype \<Rightarrow> 'v gvalue" where
  "zero_value z t =
     (if t = quadValue then VValue None
      else if t = quadSliceValue then VValues None
      else
        (case t of
           TInterface n \<Rightarrow> VItem None
         | TSlice n el \<Rightarrow> (case el of TInterface n' \<Rightarrow> VItems None | _ \<Rightarrow> VNative (z t))
         | _ \<Rightarrow> VNative (z t)))"

definition zero_item :: "(gtype \<Rightarrow> 'v) \<Rightarrow> gtype \<Rightarrow> field list \<Rightarrow> 'v item" where
  "zero_item z tp fs = Item tp (map (\<lambda>f. zero_value z (Type f)) fs)"

subsection \<open>The loop body and its helpers\<close>

text \<open>\<^verbatim>\<open>strings.SplitN(s, ",", 2)[0]\<close>: the text before the first comma.\<close>

fun SplitN_first :: "string \<Rightarrow> string" where
  "SplitN_first [] = []"
| "SplitN_first (c # cs) = (if c = CHR '','' then [] else c # SplitN_first cs)"

text \<open>
  \<^verbatim>\<open>fv.Set(x)\<close> on field \<open>i\<close> of the item. reflect panics when the field is unexported.
\<close>

definition Set_field :: "field \<Rightarrow> nat \<Rightarrow> 'v gvalue \<Rightarrow> 'v item \<Rightarrow> 'f failure + 'v item" where
  "Set_field f i x item =
     (if PkgPath f = [] then Inr (Item (item_type item) ((item_fields item)[i := x]))
      else Inl (Panic ''reflect: reflect.Value.Set using value obtained using unexported field''))"

text \<open>
  \<^verbatim>\<open>fv.Set(reflect.ValueOf(s))\<close> for a decoded item \<^verbatim>\<open>s\<close>, whose dynamic type is a pointer
  to its struct type: reflect also panics when that type is not assignable to the field.
\<close>

definition Set_item ::
  "('f, 'v) golib \<Rightarrow> field \<Rightarrow> nat \<Rightarrow> 'v item \<Rightarrow> 'v item \<Rightarrow> 'f failure + 'v item" where
  "Set_item L f i s item =
     (if PkgPath f = [] then
        (if AssignableTo L (TPtr (item_type s)) (Type f)
         then Inr (Item (item_type item) ((item_fields item)[i := VItem (Some s)]))
         else Inl (Panic ''reflect.Set: value is not assignable to type''))
      else Inl (Panic ''reflect: reflect.Value.Set using value obtained using unexported field''))"

text \<open>
  The \<^verbatim>\<open>case quadValue\<close> branch (lines 68 to 79). The document is decoded into \<^verbatim>\<open>a\<close>,
  but \<^verbatim>\<open>parseValue\<close> is called on \<^verbatim>\<open>v\<close>, the \<^verbatim>\<open>json.RawMessage\<close>.
\<close>

definition decode_Value ::
  "('f, 'v) golib \<Rightarrow> field \<Rightarrow> nat \<Rightarrow> json \<Rightarrow> 'v item \<Rightarrow> 'f failure + 'v item" where
  "decode_Value L f i v item =
     (case to_iface (ParseFloat L) v of
        None \<Rightarrow> Inl (Err (JSONError UnmarshalTypeError))
      | Some a \<Rightarrow>
          (case parseValue (Sprintf_f L) (IRawMessage v) of
             Inl err \<Rightarrow> Inl (Err err)
           | Inr val \<Rightarrow> Set_field f i (VValue (Some val)) item))"

text \<open>The \<^verbatim>\<open>case quadSliceValue\<close> branch (lines 80 to 95) and its loop.\<close>

fun values_loop ::
  "('f \<Rightarrow> string) \<Rightarrow> 'f iface list \<Rightarrow> quad_value list option \<Rightarrow>
   'f error + quad_value list option" where
  "values_loop fmt_f [] vals = Inr vals"
| "values_loop fmt_f (x # a) vals =
     (case parseValue fmt_f x of
        Inl err \<Rightarrow> Inl err
      | Inr val \<Rightarrow> values_loop fmt_f a (append1 vals val))"

definition decode_Values ::
  "('f, 'v) golib \<Rightarrow> field \<Rightarrow> nat \<Rightarrow> json \<Rightarrow> 'v item \<Rightarrow> 'f failure + 'v item" where
  "decode_Values L f i v item =
     (case unmarshal_iface_slice (ParseFloat L) v of
        Inl err \<Rightarrow> Inl (Err (JSONError err))
      | Inr a \<Rightarrow>
          (case values_loop (Sprintf_f L) (elements a) None of
             Inl err \<Rightarrow> Inl (Err err)
           | Inr vals \<Rightarrow> Set_field f i (VValues vals) item))"

text \<open>
  \<^verbatim>\<open>json.Unmarshal(v, fv.Addr().Interface())\<close> (lines 107 and 129): \<^verbatim>\<open>Interface\<close>
  panics on an unexported field.
\<close>

definition decode_native ::
  "('f, 'v) golib \<Rightarrow> field \<Rightarrow> nat \<Rightarrow> json \<Rightarrow> 'v item \<Rightarrow> 'f failure + 'v item" where
  "decode_native L f i v item =
     (if PkgPath f = [] then
        (case json_Unmarshal L (Type f) v of
           Inl err \<Rightarrow> Inl (Err (JSONError err))
         | Inr x \<Rightarrow> Inr (Item (item_type item) ((item_fields item)[i := VNative x])))
      else Inl (Panic
        ''reflect.Value.Interface: cannot return value obtained from unexported field or method''))"

text \<open>\<^verbatim>\<open>delete(m, "@type")\<close>.\<close>

definition delete_key :: "string \<Rightarrow> (string \<times> 'a) list \<Rightarrow> (string \<times> 'a) list" where
  "delete_key k m = filter (\<lambda>kv. fst kv \<noteq> k) m"

subsection \<open>Unmarshal\<close>

text \<open>
  \<^verbatim>\<open>Unmarshal\<close> with its loop over the fields (\<open>fields_loop\<close>, the body being
  \<open>decode_field\<close>) and its loop over the elements of a slice of interfaces
  (\<open>elems_loop\<close>). A \<^verbatim>\<open>continue\<close> is the body returning the item as it is. The type
  stored in the registry is a struct type whenever \<^verbatim>\<open>Register\<close> stored it; on any other
  type \<^verbatim>\<open>tp.NumField()\<close> panics. The type assertion of line 135 cannot fail on a type that
  \<^verbatim>\<open>Register\<close> stored, since a pointer to it implements \<^verbatim>\<open>RegistryItem\<close>; it is left out.
\<close>

function Unmarshal :: "('f, 'v) golib \<Rightarrow> registry \<Rightarrow> json \<Rightarrow> 'f failure + 'v item"
  and fields_loop ::
    "('f, 'v) golib \<Rightarrow> registry \<Rightarrow> (string \<times> json) list \<Rightarrow> field list \<Rightarrow> nat \<Rightarrow> 'v item \<Rightarrow>
     'f failure + 'v item"
  and decode_field ::
    "('f, 'v) golib \<Rightarrow> registry \<Rightarrow> (string \<times> json) list \<Rightarrow> field \<Rightarrow> nat \<Rightarrow> 'v item \<Rightarrow>
     'f failure + 'v item"
  and elems_loop ::
    "('f, 'v) golib \<Rightarrow> registry \<Rightarrow> gtype \<Rightarrow> json list \<Rightarrow> 'f failure + 'v item list"
where
  "Unmarshal L reg data =
     (case unmarshal_RawMessage_map data of
        Inl err \<Rightarrow> Inl (Err (JSONError err))
      | Inr m \<Rightarrow>
          (case unmarshal_string (map_of m ''@type'') of
             Inl err \<Rightarrow> Inl (Err (JSONError err))
           | Inr typ \<Rightarrow>
               (case typeByName reg typ of
                  None \<Rightarrow> Inl (Err (UnsupportedItem typ))
                | Some tp \<Rightarrow>
                    (case tp of
                       TStruct n fs \<Rightarrow>
                         fields_loop L reg (delete_key ''@type'' m) fs 0
                           (zero_item (Zero L) tp fs)
                     | _ \<Rightarrow> Inl (Panic ''reflect: NumField of non-struct type'')))))"
| "fields_loop L reg m [] i item = Inr item"
| "fields_loop L reg m (f # fs) i item =
     (case decode_field L reg m f i item of
        Inl e \<Rightarrow> Inl e
      | Inr item' \<Rightarrow> fields_loop L reg m fs (Suc i) item')"
| "decode_field L reg m f i item =
     (let tag = SplitN_first (Tag_json f)
      in if tag = ''-'' then Inr item
         else
           (case map_of m (if tag = [] then Name f else tag) of
              None \<Rightarrow> Inr item
            | Some v \<Rightarrow>
                if Type f = quadValue then decode_Value L f i v item
                else if Type f = quadSliceValue then decode_Values L f i v item
                else
                  (case Type f of
                     TInterface n \<Rightarrow>
                       (case Unmarshal L reg v of
                          Inl e \<Rightarrow> Inl e
                        | Inr s \<Rightarrow> Set_item L f i s item)
                   | TSlice n el \<Rightarrow>
                       (case el of
                          TInterface n' \<Rightarrow>
                            (case unmarshal_RawMessage_slice v of
                               Inl err \<Rightarrow> Inl (Err (JSONError err))
                             | Inr None \<Rightarrow> Inr item
                             | Inr (Some arr) \<Rightarrow>
                                 (case elems_loop L reg el arr of
                                    Inl e \<Rightarrow> Inl e
                                  | Inr va \<Rightarrow> Set_field f i (VItems (Some va)) item))
                        | _ \<Rightarrow> decode_native L f i v item)
                   | _ \<Rightarrow> decode_native L f i v item)))"
| "elems_loop L reg el [] = Inr []"
| "elems_loop L reg el (v # arr) =
     (case Unmarshal L reg v of
        Inl e \<Rightarrow> Inl e
      | Inr s \<Rightarrow>
          if AssignableTo L (TPtr (item_type s)) el then
            (case elems_loop L reg el arr of
               Inl e \<Rightarrow> Inl e
             | Inr va \<Rightarrow> Inr (s # va))
          else Inl (Panic ''reflect.Set: value is not assignable to type''))"
  by pat_completeness auto


text \<open>
  The measure of the termination proof: every recursive call is on a document inside the
  one being decoded.
\<close>

definition msize :: "(string \<times> json) list \<Rightarrow> nat" where
  "msize m = size_list (\<lambda>kv. Suc (size (snd kv))) m"

definition Unmarshal_measure ::
  "(('f, 'v) golib \<times> registry \<times> json +
    ('f, 'v) golib \<times> registry \<times> (string \<times> json) list \<times> field list \<times> nat \<times> 'v item) +
   (('f, 'v) golib \<times> registry \<times> (string \<times> json) list \<times> field \<times> nat \<times> 'v item +
    ('f, 'v) golib \<times> registry \<times> gtype \<times> json list) \<Rightarrow> nat \<times> nat" where
  "Unmarshal_measure x =
     (case x of
        Inl (Inl (L, reg, data)) \<Rightarrow> (size data + 1, 0)
      | Inl (Inr (L, reg, m, fs, i, item)) \<Rightarrow> (msize m, length fs + 1)
      | Inr (Inl (L, reg, m, f, i, item)) \<Rightarrow> (msize m, 0)
      | Inr (Inr (L, reg, el, arr)) \<Rightarrow> (size_list size arr, 1))"

subsection \<open>Names for the statements\<close>

text \<open>
  The key under which the loop looks a field up (lines 55 to 61), and the map \<^verbatim>\<open>m\<close> the
  loop reads, that is the members of the wire object after \<^verbatim>\<open>delete(m, "@type")\<close>.
\<close>

definition wire_key :: "field \<Rightarrow> string" where
  "wire_key f = (if SplitN_first (Tag_json f) = [] then Name f else SplitN_first (Tag_json f))"

definition wire_map :: "json \<Rightarrow> (string \<times> json) list" where
  "wire_map data =
     (case unmarshal_RawMessage_map data of
        Inl err \<Rightarrow> []
      | Inr m \<Rightarrow> delete_key ''@type'' m)"

subsection \<open>Example shapes\<close>

text \<open>
  The shapes of section 8 of the specification, \<^verbatim>\<open>Bar{x}\<close> and \<^verbatim>\<open>Foo{name, children}\<close>,
  the latter extended by a skipped field, a \<^verbatim>\<open>[]quad.Value\<close> field and a
  \<^verbatim>\<open>quad.Value\<close> field, and the registry after registering both.
\<close>

definition Bar :: gtype where
  "Bar = TStruct ''Bar'' [StructField ''X'' [] ''x'' (TOther ''int'')]"

definition Foo_fields :: "field list" where
  "Foo_fields =
     [StructField ''Name'' [] ''name'' (TOther ''string''),
      StructField ''Children'' [] ''children'' (TSlice [] (TInterface ''RegistryItem'')),
      StructField ''Hidden'' [] ''-'' (TOther ''string''),
      StructField ''Values'' [] ''values'' quadSliceValue,
      StructField ''Value'' [] ''value'' quadValue]"

definition Foo :: gtype where
  "Foo = TStruct ''Foo'' Foo_fields"

definition example_registry :: registry where
  "example_registry =
     snd (Register (Registrant (TPtr Foo) ''Foo'')
       (snd (Register (Registrant (TPtr Bar) ''Bar'') empty_registry)))"

text \<open>
  A library instance for evaluating the decoder on examples: a \<^verbatim>\<open>float64\<close> is kept as
  the literal it was read from, a natively decoded field as its JSON document, and every
  item is assignable to every interface.
\<close>

definition example_lib :: "(string, json) golib" where
  "example_lib =
     \<lparr>ParseFloat = Some, Sprintf_f = (\<lambda>s. s), json_Unmarshal = (\<lambda>t v. Inr v),
      Zero = (\<lambda>t. JNull), AssignableTo = (\<lambda>t u. True)\<rparr>"

section \<open>Termination of the decoder\<close>

lemma msize_lookup: "map_of m k = Some v \<Longrightarrow> size v + 2 \<le> msize m"
  by (induction m) (auto simp: msize_def split: if_splits)

lemma msize_filter: "msize (filter P m) \<le> msize m"
  by (induction m) (auto simp: msize_def)

lemma msize_rev: "msize (rev m) = msize m"
  by (induction m) (auto simp: msize_def)

lemma msize_JObject: "msize kvs < size (JObject kvs)"
  by (induction kvs) (auto simp: msize_def)

lemma msize_RawMessage_map:
  "unmarshal_RawMessage_map data = Inr m \<Longrightarrow> msize (delete_key k m) < size data + 1"
proof (cases data)
  case (JObject kvs)
  assume "unmarshal_RawMessage_map data = Inr m"
  with JObject have m: "m = rev kvs" by simp
  have "msize (delete_key k m) \<le> msize m" by (simp add: delete_key_def msize_filter)
  also have "\<dots> = msize kvs" by (simp add: m msize_rev)
  also have "\<dots> < size data" using msize_JObject JObject by simp
  finally show ?thesis by simp
qed (auto simp: delete_key_def msize_def)

lemma size_RawMessage_slice:
  "unmarshal_RawMessage_slice v = Inr (Some arr) \<Longrightarrow> size_list size arr < size v"
  by (cases v) auto

termination Unmarshal
proof (relation "inv_image (less_than <*lex*> less_than) Unmarshal_measure", goal_cases)
  case 1
  show ?case by (intro wf_inv_image wf_lex_prod wf_less_than)
next
  case (2 L reg data m ty tp n fs)
  then show ?case using msize_RawMessage_map[of data m "''@type''"]
    by (simp add: Unmarshal_measure_def)
next
  case 3
  show ?case by (simp add: Unmarshal_measure_def)
next
  case 4
  show ?case by (simp add: Unmarshal_measure_def)
next
  case (5 L reg m f i item tag v n)
  then show ?case using msize_lookup[of m "if tag = [] then Name f else tag" v]
    by (simp add: Unmarshal_measure_def)
next
  case (6 L reg m f i item tag v n el n' b arr)
  then show ?case
    using msize_lookup[of m "if tag = [] then Name f else tag" v] size_RawMessage_slice[of v arr]
    by (simp add: Unmarshal_measure_def)
next
  case 7
  show ?case by (auto simp: Unmarshal_measure_def)
next
  case 8
  show ?case by (simp add: Unmarshal_measure_def)
qed

declare Unmarshal.simps [simp del]
declare decode_field.simps [simp del]

section \<open>Evaluating the examples\<close>

lemma typeByName_example_registry:
  "typeByName example_registry = [''Bar'' \<mapsto> Bar, ''Foo'' \<mapsto> Foo]"
  by (simp add: example_registry_def Register_def empty_registry_def indirect_def Foo_def Bar_def
      Let_def)

lemmas example_simps =
  Unmarshal.simps decode_field.simps typeByName_example_registry Foo_def Foo_fields_def Bar_def
  delete_key_def zero_item_def zero_value_def quadValue_def quadSliceValue_def
  decode_Value_def decode_Values_def decode_native_def Set_field_def Set_item_def
  example_lib_def wire_key_def wire_map_def Let_def

lemma intstring_42: "intstring 42 = ''*''"
  by code_simp

section \<open>How one field reaches the decoded item\<close>

lemma decode_field_skip:
  "SplitN_first (Tag_json f) = ''-'' \<Longrightarrow> decode_field L reg m f i item = Inr item"
  by (simp add: decode_field.simps)

lemma decode_field_absent:
  "map_of m (wire_key f) = None \<Longrightarrow> decode_field L reg m f i item = Inr item"
  by (simp add: decode_field.simps wire_key_def Let_def)

text \<open>The loop body at index \<open>i\<close> changes no other field, and the loop no earlier one.\<close>

lemma decode_field_frame:
  assumes "decode_field L reg m f i item = Inr item'"
  shows "item_type item' = item_type item"
    and "length (item_fields item') = length (item_fields item)"
    and "j \<noteq> i \<Longrightarrow> item_fields item' ! j = item_fields item ! j"
  using assms
  by (auto simp: decode_field.simps Let_def decode_Value_def decode_Values_def decode_native_def
      Set_field_def Set_item_def
      split: if_splits option.splits sum.splits gtype.splits)

lemma fields_loop_frame:
  assumes "fields_loop L reg m fs i item = Inr item'"
  shows "item_type item' = item_type item \<and>
         length (item_fields item') = length (item_fields item) \<and>
         (\<forall>j<i. item_fields item' ! j = item_fields item ! j)"
  using assms
proof (induction fs arbitrary: i item)
  case Nil
  then show ?case by simp
next
  case (Cons f fs)
  from Cons.prems obtain item1 where
    step: "decode_field L reg m f i item = Inr item1" and
    rest: "fields_loop L reg m fs (Suc i) item1 = Inr item'"
    by (auto split: sum.splits)
  from Cons.IH[OF rest] decode_field_frame[OF step]
  show ?case by auto
qed

text \<open>
  In a loop that succeeds, field \<open>i + k\<close> of the result is what the body left there when
  it ran for the \<open>k\<close>-th field, and the body found the field as the loop started with it.
\<close>

lemma fields_loop_at:
  assumes "fields_loop L reg m fs i item = Inr item'" and "k < length fs"
  shows "\<exists>item1 item2.
           decode_field L reg m (fs ! k) (i + k) item1 = Inr item2 \<and>
           length (item_fields item1) = length (item_fields item) \<and>
           item_fields item1 ! (i + k) = item_fields item ! (i + k) \<and>
           item_fields item' ! (i + k) = item_fields item2 ! (i + k)"
  using assms
proof (induction fs arbitrary: i item k)
  case Nil
  then show ?case by simp
next
  case (Cons f fs)
  from Cons.prems(1) obtain item1 where
    step: "decode_field L reg m f i item = Inr item1" and
    rest: "fields_loop L reg m fs (Suc i) item1 = Inr item'"
    by (auto split: sum.splits)
  show ?case
  proof (cases k)
    case 0
    from fields_loop_frame[OF rest] have "item_fields item' ! i = item_fields item1 ! i"
      by simp
    with step 0 show ?thesis by auto
  next
    case (Suc k')
    with Cons.prems(2) have k': "k' < length fs" by simp
    from Cons.IH[OF rest k'] obtain a b where
      ab: "decode_field L reg m (fs ! k') (Suc i + k') a = Inr b"
        "length (item_fields a) = length (item_fields item1)"
        "item_fields a ! (Suc i + k') = item_fields item1 ! (Suc i + k')"
        "item_fields item' ! (Suc i + k') = item_fields b ! (Suc i + k')"
      by blast
    from decode_field_frame[OF step]
    have "length (item_fields item1) = length (item_fields item)"
      "item_fields item1 ! (Suc i + k') = item_fields item ! (Suc i + k')"
      by simp_all
    with ab Suc show ?thesis by auto
  qed
qed

lemma Unmarshal_Inr:
  assumes "Unmarshal L reg data = Inr item"
  shows "\<exists>m n fs. unmarshal_RawMessage_map data = Inr m \<and>
           item_type item = TStruct n fs \<and>
           fields_loop L reg (delete_key ''@type'' m) fs 0 (zero_item (Zero L) (TStruct n fs) fs)
             = Inr item"
proof -
  from assms obtain m ty n fs where
    m: "unmarshal_RawMessage_map data = Inr m" and
    loop: "fields_loop L reg (delete_key ''@type'' m) fs 0 (zero_item (Zero L) (TStruct n fs) fs)
             = Inr item"
    by (auto simp: Unmarshal.simps split: sum.splits option.splits gtype.splits)
  from fields_loop_frame[OF loop] have "item_type item = TStruct n fs"
    by (simp add: zero_item_def)
  with m loop show ?thesis by blast
qed

lemma Unmarshal_field:
  assumes "Unmarshal L reg data = Inr item" and "item_type item = TStruct n fs"
    and "k < length fs"
  shows "\<exists>item1 item2.
           decode_field L reg (wire_map data) (fs ! k) k item1 = Inr item2 \<and>
           k < length (item_fields item1) \<and>
           item_fields item1 ! k = zero_value (Zero L) (Type (fs ! k)) \<and>
           item_fields item ! k = item_fields item2 ! k"
proof -
  from Unmarshal_Inr[OF assms(1)] assms(2) obtain m where
    m: "unmarshal_RawMessage_map data = Inr m" and
    loop: "fields_loop L reg (delete_key ''@type'' m) fs 0 (zero_item (Zero L) (TStruct n fs) fs)
             = Inr item"
    by auto
  from fields_loop_at[OF loop assms(3)] obtain item1 item2 where
    a: "decode_field L reg (delete_key ''@type'' m) (fs ! k) k item1 = Inr item2"
      "length (item_fields item1) = length (item_fields (zero_item (Zero L) (TStruct n fs) fs))"
      "item_fields item1 ! k = item_fields (zero_item (Zero L) (TStruct n fs) fs) ! k"
      "item_fields item ! k = item_fields item2 ! k"
    by auto
  have "decode_field L reg (wire_map data) (fs ! k) k item1 = Inr item2"
    using a(1) m by (simp add: wire_map_def)
  moreover have "k < length (item_fields item1)"
    using a(2) assms(3) by (simp add: zero_item_def)
  moreover have "item_fields item1 ! k = zero_value (Zero L) (Type (fs ! k))"
    using a(3) assms(3) by (simp add: zero_item_def)
  ultimately show ?thesis using a(4) by blast
qed

lemma Unmarshal_field_absent:
  assumes "Unmarshal L reg data = Inr item" and "item_type item = TStruct n fs"
    and "k < length fs" and "map_of (wire_map data) (wire_key (fs ! k)) = None"
  shows "item_fields item ! k = zero_value (Zero L) (Type (fs ! k))"
  using Unmarshal_field[OF assms(1-3)] assms(4) by (auto simp: decode_field_absent)

lemma decode_field_items_empty:
  assumes "Type f = TSlice sn (TInterface el)" and "Type f \<noteq> quadSliceValue"
    and "SplitN_first (Tag_json f) \<noteq> ''-''"
    and "map_of m (wire_key f) = Some (JArray [])"
    and "decode_field L reg m f i item = Inr item'"
  shows "item_fields item' = (item_fields item)[i := VItems (Some [])]"
  using assms
  by (auto simp: decode_field.simps wire_key_def Let_def quadValue_def Set_field_def
      split: if_splits)

lemma Unmarshal_items_empty:
  assumes "Unmarshal L reg data = Inr item" and "item_type item = TStruct n fs"
    and "k < length fs" and "Type (fs ! k) = TSlice sn (TInterface el)"
    and "Type (fs ! k) \<noteq> quadSliceValue"
    and "SplitN_first (Tag_json (fs ! k)) \<noteq> ''-''"
    and "map_of (wire_map data) (wire_key (fs ! k)) = Some (JArray [])"
  shows "item_fields item ! k = VItems (Some [])"
proof -
  from Unmarshal_field[OF assms(1-3)] obtain item1 item2 where
    a: "decode_field L reg (wire_map data) (fs ! k) k item1 = Inr item2"
      "k < length (item_fields item1)"
      "item_fields item ! k = item_fields item2 ! k"
    by blast
  from decode_field_items_empty[OF assms(4-7) a(1)] a(2,3) show ?thesis by simp
qed

lemma decode_field_Values_empty:
  assumes "Type f = quadSliceValue"
    and "SplitN_first (Tag_json f) \<noteq> ''-''"
    and "map_of m (wire_key f) = Some (JArray [])"
    and "decode_field L reg m f i item = Inr item'"
  shows "item_fields item' = (item_fields item)[i := VValues None]"
  using assms
  by (auto simp: decode_field.simps wire_key_def Let_def quadValue_def quadSliceValue_def
      Set_field_def decode_Values_def
      split: if_splits)

lemma Unmarshal_Values_empty:
  assumes "Unmarshal L reg data = Inr item" and "item_type item = TStruct n fs"
    and "k < length fs" and "Type (fs ! k) = quadSliceValue"
    and "SplitN_first (Tag_json (fs ! k)) \<noteq> ''-''"
    and "map_of (wire_map data) (wire_key (fs ! k)) = Some (JArray [])"
  shows "item_fields item ! k = VValues None"
proof -
  from Unmarshal_field[OF assms(1-3)] obtain item1 item2 where
    a: "decode_field L reg (wire_map data) (fs ! k) k item1 = Inr item2"
      "k < length (item_fields item1)"
      "item_fields item ! k = item_fields item2 ! k"
    by blast
  from decode_field_Values_empty[OF assms(4-6) a(1)] a(2,3) show ?thesis by simp
qed

text \<open>A \<^verbatim>\<open>quad.Value\<close> field whose key is present makes the body, and so the loop, fail.\<close>

lemma decode_field_Value_fails:
  assumes "Type f = quadValue" and "SplitN_first (Tag_json f) \<noteq> ''-''"
    and "map_of m (wire_key f) = Some v"
  shows "isl (decode_field L reg m f i item)"
  using assms
  by (auto simp: decode_field.simps wire_key_def Let_def decode_Value_def split: option.splits)

lemma fields_loop_Value_fails:
  assumes "f \<in> set fs" and "Type f = quadValue" and "SplitN_first (Tag_json f) \<noteq> ''-''"
    and "map_of m (wire_key f) = Some v"
  shows "isl (fields_loop L reg m fs i item)"
  using assms(1)
proof (induction fs arbitrary: i item)
  case Nil
  then show ?case by simp
next
  case (Cons g fs)
  show ?case
  proof (cases "decode_field L reg m g i item")
    case (Inl e)
    then show ?thesis by simp
  next
    case (Inr item1)
    with decode_field_Value_fails[OF assms(2-4), of L reg i item] have "g \<noteq> f" by auto
    with Cons.prems have "f \<in> set fs" by simp
    from Cons.IH[OF this] Inr show ?thesis by simp
  qed
qed

text \<open>The item returned for a wire object has the struct type registered under its name.\<close>

lemma Unmarshal_item_type:
  assumes "Unmarshal L reg (JObject kvs) = Inr item"
    and "map_of (rev kvs) ''@type'' = Some (JString name)"
  shows "typeByName reg name = Some (item_type item)"
proof -
  from assms obtain n fs where
    tp: "typeByName reg name = Some (TStruct n fs)" and
    loop: "fields_loop L reg (delete_key ''@type'' (rev kvs)) fs 0
             (zero_item (Zero L) (TStruct n fs) fs) = Inr item"
    by (auto simp: Unmarshal.simps split: option.splits gtype.splits)
  from fields_loop_frame[OF loop] tp show ?thesis
    by (simp add: zero_item_def)
qed

section \<open>Where the code departs from the specification\<close>

text \<open>
  C1. A counterexample in the code to the statement that every valid encoding of a
  registered shape decodes: \<^verbatim>\<open>Foo\<close> is registered under the name \<^verbatim>\<open>Foo\<close>, and the wire
  object \<^verbatim>\<open>{"@type":"Foo","value":{"@id":"http://example/x"}}\<close>, which gives its
  \<^verbatim>\<open>quad.Value\<close> field an IRI, is rejected with the error of \<^verbatim>\<open>parseValue\<close>, whatever
  the library does.
\<close>

theorem valid_encoding_with_Value_rejected:
  "typeByName example_registry ''Foo'' = Some Foo
   \<and> Unmarshal L example_registry
       (JObject [(''@type'', JString ''Foo''),
                 (''value'', JObject [(''@id'', JString ''http://example/x'')])]) =
     Inl (Err (CannotParseValue
       (IRawMessage (JObject [(''@id'', JString ''http://example/x'')]))))"
  by (simp add: example_simps)

text \<open>
  C2. What the code does with a \<^verbatim>\<open>quad.Value\<close> field whose key is present, where the
  specification has the field set to the decoded value: when the wire object names a
  registered struct type that has a field of type \<^verbatim>\<open>quad.Value\<close>, not skipped, and
  holds any value at all under that field's key, \<^verbatim>\<open>Unmarshal\<close> returns no item. Line 74
  hands \<^verbatim>\<open>parseValue\<close> the \<^verbatim>\<open>json.RawMessage\<close>, which none of its cases accepts.
\<close>

theorem Value_field_always_rejected:
  assumes "map_of (rev kvs) ''@type'' = Some (JString name)"
    and "typeByName reg name = Some (TStruct n fs)"
    and "f \<in> set fs" and "Type f = quadValue"
    and "SplitN_first (Tag_json f) \<noteq> ''-''"
    and "map_of (wire_map (JObject kvs)) (wire_key f) = Some v"
  shows "isl (Unmarshal L reg (JObject kvs))"
proof -
  have "isl (fields_loop L reg (wire_map (JObject kvs)) fs 0
          (zero_item (Zero L) (TStruct n fs) fs))"
    by (rule fields_loop_Value_fails[OF assms(3-6)])
  with assms(1,2) show ?thesis
    by (simp add: Unmarshal.simps wire_map_def)
qed

theorem Value_field_always_rejected_witness:
  "map_of (rev [(''@type'', JString ''Foo''), (''value'', JString ''hello'')]) ''@type'' =
     Some (JString ''Foo'')
   \<and> typeByName example_registry ''Foo'' = Some (TStruct ''Foo'' Foo_fields)
   \<and> StructField ''Value'' [] ''value'' quadValue \<in> set Foo_fields
   \<and> map_of (wire_map (JObject [(''@type'', JString ''Foo''), (''value'', JString ''hello'')]))
        (wire_key (StructField ''Value'' [] ''value'' quadValue)) = Some (JString ''hello'')
   \<and> isl (Unmarshal example_lib example_registry
        (JObject [(''@type'', JString ''Foo''), (''value'', JString ''hello'')]))"
proof -
  have h1: "map_of (rev [(''@type'', JString ''Foo''), (''value'', JString ''hello'')])
      ''@type'' = Some (JString ''Foo'')"
    by simp
  have h2: "typeByName example_registry ''Foo'' = Some (TStruct ''Foo'' Foo_fields)"
    by (simp add: typeByName_example_registry Foo_def)
  have h3: "StructField ''Value'' [] ''value'' quadValue \<in> set Foo_fields"
    by (simp add: Foo_fields_def)
  have h4: "Type (StructField ''Value'' [] ''value'' quadValue) = quadValue"
    by simp
  have h5: "SplitN_first (Tag_json (StructField ''Value'' [] ''value'' quadValue)) \<noteq> ''-''"
    by simp
  have h6: "map_of (wire_map (JObject [(''@type'', JString ''Foo''),
        (''value'', JString ''hello'')]))
        (wire_key (StructField ''Value'' [] ''value'' quadValue)) = Some (JString ''hello'')"
    by (simp add: wire_map_def wire_key_def delete_key_def)
  show ?thesis
    using h1 h2 h3 h6 Value_field_always_rejected [OF h1 h2 h3 h4 h5 h6, of example_lib]
    by simp
qed

text \<open>
  C3. What the code does at \<^verbatim>\<open>{"@value":"hello","@language":"en"}\<close>: the value
  decoder returns the language-tagged string whose text is \<^verbatim>\<open>value\<close>, not \<^verbatim>\<open>hello\<close>,
  both when called on the decoded object and when reached through a \<^verbatim>\<open>[]quad.Value\<close>
  field of \<^verbatim>\<open>Unmarshal\<close>.
\<close>

theorem language_string_text_is_placeholder:
  "map_option (parseValue fmt_f)
     (to_iface pf (JObject [(''@value'', JString ''hello''), (''@language'', JString ''en'')])) =
     Some (Inr (quad_LangString ''value'' ''en''))
   \<and> quad_LangString ''value'' ''en'' \<noteq> quad_LangString ''hello'' ''en''
   \<and> Unmarshal L example_registry
       (JObject [(''@type'', JString ''Foo''),
                 (''values'', JArray [JObject [(''@value'', JString ''hello''),
                                              (''@language'', JString ''en'')]])]) =
     Inr (Item Foo [VNative (Zero L (TOther ''string'')), VItems None,
                    VNative (Zero L (TOther ''string'')),
                    VValues (Some [quad_LangString ''value'' ''en'']), VValue None])"
  by (simp add: example_simps)

text \<open>
  C4. What the code does with the integer 42. Given an \<^verbatim>\<open>int64\<close>, the value decoder
  returns the literal whose text is the one character with code point 42, \<^verbatim>\<open>*\<close>, not
  the decimal text \<^verbatim>\<open>42\<close>. Given the JSON number \<^verbatim>\<open>42\<close> as \<^verbatim>\<open>json.Unmarshal\<close> decodes
  it into an \<^verbatim>\<open>interface{}\<close>, a \<^verbatim>\<open>float64\<close>, it returns a literal of datatype
  \<^verbatim>\<open>xsd:float\<close> with the \<^verbatim>\<open>%f\<close> text.
\<close>

theorem integer_is_rune_or_float:
  "parseValue fmt_f (IInt64 42) = Inr (quad_TypedString ''*'' xsdInt)
   \<and> parseValue fmt_f (IInt64 42) \<noteq> Inr (quad_TypedString ''42'' xsdInt)
   \<and> map_option (parseValue fmt_f) (to_iface pf (JNumber ''42'')) =
       map_option (\<lambda>x. Inr (quad_TypedString (fmt_f x) xsdFloat)) (pf ''42'')
   \<and> xsdFloat \<noteq> xsdInt"
  by (simp add: intstring_42 option.map_comp comp_def xsdFloat_def xsdInt_def)

section \<open>Registering a name twice\<close>

text \<open>
  C7. When a first \<^verbatim>\<open>Register\<close> call has succeeded, a second call with the same
  \<^verbatim>\<open>Type()\<close> name panics and leaves the registry as it was, so the name is still
  mapped to the struct type of the first registrant. The panic is the duplicate-name one
  whenever the second registrant is a struct or a pointer to one.
\<close>

theorem Register_duplicate_name:
  assumes "Register a reg = (Inr (), reg1)" and "Type_iri b = Type_iri a"
  shows "fst (Register b reg1) =
           Inl (if Kind (indirect (TypeOf b)) = Struct then ''this name was already registered''
                else ''only structs are allowed'')
         \<and> snd (Register b reg1) = reg1
         \<and> typeByName reg1 (Type_iri a) = Some (indirect (TypeOf a))"
proof -
  from assms(1) have reg1: "typeByName reg1 (Type_iri a) = Some (indirect (TypeOf a))"
    by (auto simp: Register_def Let_def split: if_splits option.splits)
  with assms(2) show ?thesis
    by (simp add: Register_def Let_def)
qed

theorem Register_duplicate_name_witness:
  "Register (Registrant (TPtr Bar) ''Bar'') empty_registry =
     (Inr (), snd (Register (Registrant (TPtr Bar) ''Bar'') empty_registry))
   \<and> fst (Register (Registrant Foo ''Bar'')
        (snd (Register (Registrant (TPtr Bar) ''Bar'') empty_registry))) =
       Inl ''this name was already registered''
   \<and> snd (Register (Registrant Foo ''Bar'')
        (snd (Register (Registrant (TPtr Bar) ''Bar'') empty_registry))) =
       snd (Register (Registrant (TPtr Bar) ''Bar'') empty_registry)
   \<and> typeByName (snd (Register (Registrant (TPtr Bar) ''Bar'') empty_registry)) ''Bar'' = Some Bar"
proof -
  have h: "Register (Registrant (TPtr Bar) ''Bar'') empty_registry =
     (Inr (), snd (Register (Registrant (TPtr Bar) ''Bar'') empty_registry))"
    by (simp add: Register_def empty_registry_def indirect_def Bar_def Let_def)
  show ?thesis
    using h Register_duplicate_name [OF h, of "Registrant Foo ''Bar''"]
    by (simp add: indirect_def Foo_def Bar_def)
qed

section \<open>Unknown discriminators\<close>

text \<open>
  C6. When the \<^verbatim>\<open>@type\<close> member of the wire object is a string that is not a key of
  \<^verbatim>\<open>typeByName\<close>, \<^verbatim>\<open>Unmarshal\<close> returns the error \<^verbatim>\<open>unsupported item\<close> carrying that
  string, and no item.
\<close>

theorem Unmarshal_unsupported_item:
  assumes "map_of (rev kvs) ''@type'' = Some (JString name)"
    and "typeByName reg name = None"
  shows "Unmarshal L reg (JObject kvs) = Inl (Err (UnsupportedItem name))"
  using assms by (simp add: Unmarshal.simps)

theorem Unmarshal_unsupported_item_witness:
  "map_of (rev [(''@type'', JString ''Baz''), (''x'', JNumber ''1'')]) ''@type'' =
     Some (JString ''Baz'')
   \<and> typeByName example_registry ''Baz'' = None
   \<and> Unmarshal example_lib example_registry
        (JObject [(''@type'', JString ''Baz''), (''x'', JNumber ''1'')]) =
       Inl (Err (UnsupportedItem ''Baz''))"
proof -
  have h1: "map_of (rev [(''@type'', JString ''Baz''), (''x'', JNumber ''1'')]) ''@type'' =
     Some (JString ''Baz'')"
    by simp
  have h2: "typeByName example_registry ''Baz'' = None"
    by (simp add: typeByName_example_registry)
  show ?thesis
    using h1 h2 Unmarshal_unsupported_item [OF h1 h2, of example_lib] by simp
qed

section \<open>Skipped fields\<close>

text \<open>
  C8. A field whose json tag starts with \<^verbatim>\<open>-\<close> before the first comma is never assigned:
  in every decoded item it holds the zero value of its type. The loop body for such a
  field returns the item unchanged and without error whatever the wire object contains,
  so the loop goes on to the other fields as if the field were not there.
\<close>

theorem skipped_field_never_assigned:
  assumes "Unmarshal L reg data = Inr item" and "item_type item = TStruct n fs"
    and "k < length fs" and "SplitN_first (Tag_json (fs ! k)) = ''-''"
  shows "item_fields item ! k = zero_value (Zero L) (Type (fs ! k))
         \<and> decode_field L reg m (fs ! k) i it = Inr it
         \<and> fields_loop L reg m (fs ! k # gs) i it = fields_loop L reg m gs (Suc i) it"
proof -
  from Unmarshal_field[OF assms(1-3)] assms(4)
  have "item_fields item ! k = zero_value (Zero L) (Type (fs ! k))"
    by (auto simp: decode_field_skip)
  with assms(4) show ?thesis by (simp add: decode_field_skip)
qed

theorem skipped_field_never_assigned_witness:
  "Unmarshal example_lib example_registry
     (JObject [(''@type'', JString ''Foo''), (''Hidden'', JString ''x''),
               (''-'', JString ''y''), (''name'', JString ''a'')]) =
     Inr (Item Foo [VNative (JString ''a''), VItems None, VNative JNull, VValues None,
                    VValue None])
   \<and> SplitN_first (Tag_json (Foo_fields ! 2)) = ''-''
   \<and> zero_value (Zero example_lib) (Type (Foo_fields ! 2)) = VNative JNull
   \<and> decode_field example_lib example_registry
        [(''name'', JString ''a''), (''-'', JString ''y''), (''Hidden'', JString ''x'')]
        (Foo_fields ! 2) 2 (zero_item (Zero example_lib) Foo Foo_fields) =
       Inr (zero_item (Zero example_lib) Foo Foo_fields)"
proof -
  have h1: "Unmarshal example_lib example_registry
     (JObject [(''@type'', JString ''Foo''), (''Hidden'', JString ''x''),
               (''-'', JString ''y''), (''name'', JString ''a'')]) =
     Inr (Item Foo [VNative (JString ''a''), VItems None, VNative JNull, VValues None,
                    VValue None])"
    by (simp add: example_simps)
  have h2: "item_type (Item Foo [VNative (JString ''a''), VItems None, VNative JNull,
                    VValues None, VValue None] :: json item) = TStruct ''Foo'' Foo_fields"
    by (simp add: Foo_def)
  have h3: "2 < length Foo_fields"
    by (simp add: Foo_fields_def)
  have h4: "SplitN_first (Tag_json (Foo_fields ! 2)) = ''-''"
    by (simp add: Foo_fields_def)
  show ?thesis
    using h1 h4 skipped_field_never_assigned [OF h1 h2 h3 h4,
        of "[(''name'', JString ''a''), (''-'', JString ''y''), (''Hidden'', JString ''x'')]"
           2 "zero_item (Zero example_lib) Foo Foo_fields"]
    by (simp add: Foo_fields_def zero_value_def quadValue_def quadSliceValue_def example_lib_def)
qed

section \<open>Empty and absent sequences\<close>

text \<open>
  C9. Let a field be a slice of an interface type other than \<^verbatim>\<open>[]quad.Value\<close>, and not
  skipped. An item decoded from a wire object holding \<^verbatim>\<open>[]\<close> under the field's key has
  an empty slice that is not nil in that field; an item of the same shape decoded from a
  wire object without the key has the nil slice there, the field's zero value; the two
  differ.
\<close>

theorem polymorphic_sequence_empty_not_nil:
  assumes "Unmarshal L reg d1 = Inr item1" and "item_type item1 = TStruct n fs"
    and "Unmarshal L reg d2 = Inr item2" and "item_type item2 = TStruct n fs"
    and "k < length fs" and "Type (fs ! k) = TSlice sn (TInterface el)"
    and "Type (fs ! k) \<noteq> quadSliceValue"
    and "SplitN_first (Tag_json (fs ! k)) \<noteq> ''-''"
    and "map_of (wire_map d1) (wire_key (fs ! k)) = Some (JArray [])"
    and "map_of (wire_map d2) (wire_key (fs ! k)) = None"
  shows "item_fields item1 ! k = VItems (Some [])
         \<and> item_fields item2 ! k = VItems None
         \<and> zero_value (Zero L) (Type (fs ! k)) = VItems None
         \<and> item_fields item1 ! k \<noteq> item_fields item2 ! k"
proof -
  have z: "zero_value (Zero L) (Type (fs ! k)) = VItems None"
    using assms(6,7) by (simp add: zero_value_def quadValue_def)
  have "item_fields item1 ! k = VItems (Some [])"
    by (rule Unmarshal_items_empty[OF assms(1,2,5,6,7,8,9)])
  moreover have "item_fields item2 ! k = VItems None"
    using Unmarshal_field_absent[OF assms(3,4,5,10)] z by simp
  ultimately show ?thesis using z by simp
qed

theorem polymorphic_sequence_empty_not_nil_witness:
  "Unmarshal example_lib example_registry
     (JObject [(''@type'', JString ''Foo''), (''children'', JArray [])]) =
     Inr (Item Foo [VNative JNull, VItems (Some []), VNative JNull, VValues None, VValue None])
   \<and> Unmarshal example_lib example_registry (JObject [(''@type'', JString ''Foo'')]) =
     Inr (Item Foo [VNative JNull, VItems None, VNative JNull, VValues None, VValue None])
   \<and> Type (Foo_fields ! 1) = TSlice [] (TInterface ''RegistryItem'')
   \<and> map_of (wire_map (JObject [(''@type'', JString ''Foo''), (''children'', JArray [])]))
        (wire_key (Foo_fields ! 1)) = Some (JArray [])
   \<and> map_of (wire_map (JObject [(''@type'', JString ''Foo'')])) (wire_key (Foo_fields ! 1)) = None
   \<and> (VItems (Some []) :: json gvalue) \<noteq> VItems None"
proof -
  have h1: "Unmarshal example_lib example_registry
     (JObject [(''@type'', JString ''Foo''), (''children'', JArray [])]) =
     Inr (Item Foo [VNative JNull, VItems (Some []), VNative JNull, VValues None, VValue None])"
    by (simp add: example_simps)
  have h2: "item_type (Item Foo [VNative JNull, VItems (Some []), VNative JNull, VValues None,
      VValue None] :: json item) = TStruct ''Foo'' Foo_fields"
    by (simp add: Foo_def)
  have h3: "Unmarshal example_lib example_registry (JObject [(''@type'', JString ''Foo'')]) =
     Inr (Item Foo [VNative JNull, VItems None, VNative JNull, VValues None, VValue None])"
    by (simp add: example_simps)
  have h4: "item_type (Item Foo [VNative JNull, VItems None, VNative JNull, VValues None,
      VValue None] :: json item) = TStruct ''Foo'' Foo_fields"
    by (simp add: Foo_def)
  have h5: "1 < length Foo_fields"
    by (simp add: Foo_fields_def)
  have h6: "Type (Foo_fields ! 1) = TSlice [] (TInterface ''RegistryItem'')"
    by (simp add: Foo_fields_def)
  have h7: "Type (Foo_fields ! 1) \<noteq> quadSliceValue"
    by (simp add: Foo_fields_def quadSliceValue_def quadValue_def)
  have h8: "SplitN_first (Tag_json (Foo_fields ! 1)) \<noteq> ''-''"
    by (simp add: Foo_fields_def)
  have h9: "map_of (wire_map (JObject [(''@type'', JString ''Foo''), (''children'', JArray [])]))
        (wire_key (Foo_fields ! 1)) = Some (JArray [])"
    by (simp add: Foo_fields_def wire_map_def wire_key_def delete_key_def)
  have h10: "map_of (wire_map (JObject [(''@type'', JString ''Foo'')]))
        (wire_key (Foo_fields ! 1)) = None"
    by (simp add: Foo_fields_def wire_map_def wire_key_def delete_key_def)
  show ?thesis
    using h1 h3 h6 h9 h10
      polymorphic_sequence_empty_not_nil [OF h1 h2 h3 h4 h5 h6 h7 h8 h9 h10]
    by simp
qed

text \<open>
  C10. Let a field have the type \<^verbatim>\<open>[]quad.Value\<close> and not be skipped. An item decoded
  from a wire object holding \<^verbatim>\<open>[]\<close> under the field's key has the nil slice in that
  field, as has an item of the same shape decoded from a wire object without the key: the
  field does not tell the two apart.
\<close>

theorem value_sequence_empty_is_nil:
  assumes "Unmarshal L reg d1 = Inr item1" and "item_type item1 = TStruct n fs"
    and "Unmarshal L reg d2 = Inr item2" and "item_type item2 = TStruct n fs"
    and "k < length fs" and "Type (fs ! k) = quadSliceValue"
    and "SplitN_first (Tag_json (fs ! k)) \<noteq> ''-''"
    and "map_of (wire_map d1) (wire_key (fs ! k)) = Some (JArray [])"
    and "map_of (wire_map d2) (wire_key (fs ! k)) = None"
  shows "item_fields item1 ! k = VValues None
         \<and> item_fields item2 ! k = VValues None
         \<and> zero_value (Zero L) (Type (fs ! k)) = VValues None
         \<and> item_fields item1 ! k = item_fields item2 ! k"
proof -
  have z: "zero_value (Zero L) (Type (fs ! k)) = VValues None"
    using assms(6) by (simp add: zero_value_def quadValue_def quadSliceValue_def)
  have "item_fields item1 ! k = VValues None"
    by (rule Unmarshal_Values_empty[OF assms(1,2,5,6,7,8)])
  moreover have "item_fields item2 ! k = VValues None"
    using Unmarshal_field_absent[OF assms(3,4,5,9)] z by simp
  ultimately show ?thesis using z by simp
qed

theorem value_sequence_empty_is_nil_witness:
  "Unmarshal example_lib example_registry
     (JObject [(''@type'', JString ''Foo''), (''values'', JArray [])]) =
     Inr (Item Foo [VNative JNull, VItems None, VNative JNull, VValues None, VValue None])
   \<and> Unmarshal example_lib example_registry (JObject [(''@type'', JString ''Foo'')]) =
     Inr (Item Foo [VNative JNull, VItems None, VNative JNull, VValues None, VValue None])
   \<and> Type (Foo_fields ! 3) = quadSliceValue
   \<and> map_of (wire_map (JObject [(''@type'', JString ''Foo''), (''values'', JArray [])]))
        (wire_key (Foo_fields ! 3)) = Some (JArray [])
   \<and> map_of (wire_map (JObject [(''@type'', JString ''Foo'')])) (wire_key (Foo_fields ! 3)) = None"
proof -
  have h1: "Unmarshal example_lib example_registry
     (JObject [(''@type'', JString ''Foo''), (''values'', JArray [])]) =
     Inr (Item Foo [VNative JNull, VItems None, VNative JNull, VValues None, VValue None])"
    by (simp add: example_simps)
  have h2: "item_type (Item Foo [VNative JNull, VItems None, VNative JNull, VValues None,
      VValue None] :: json item) = TStruct ''Foo'' Foo_fields"
    by (simp add: Foo_def)
  have h3: "Unmarshal example_lib example_registry (JObject [(''@type'', JString ''Foo'')]) =
     Inr (Item Foo [VNative JNull, VItems None, VNative JNull, VValues None, VValue None])"
    by (simp add: example_simps)
  have h5: "3 < length Foo_fields"
    by (simp add: Foo_fields_def)
  have h6: "Type (Foo_fields ! 3) = quadSliceValue"
    by (simp add: Foo_fields_def)
  have h7: "SplitN_first (Tag_json (Foo_fields ! 3)) \<noteq> ''-''"
    by (simp add: Foo_fields_def)
  have h8: "map_of (wire_map (JObject [(''@type'', JString ''Foo''), (''values'', JArray [])]))
        (wire_key (Foo_fields ! 3)) = Some (JArray [])"
    by (simp add: Foo_fields_def wire_map_def wire_key_def delete_key_def)
  have h9: "map_of (wire_map (JObject [(''@type'', JString ''Foo'')]))
        (wire_key (Foo_fields ! 3)) = None"
    by (simp add: Foo_fields_def wire_map_def wire_key_def delete_key_def)
  show ?thesis
    using h1 h3 h6 h8 h9 value_sequence_empty_is_nil [OF h1 h2 h3 h2 h5 h6 h7 h8 h9]
    by simp
qed

end
